theory Spec2Isabelle
  imports Complex_Main "HOL-Library.Sublist"
begin

section \<open>Values exchanged with agents and stored in JSON columns\<close>

text \<open>
  Payloads that the orchestrator only passes along (agent arguments, agent results,
  JSONB columns) are JSON values. An absent optional property is an absent key.
\<close>

datatype json =
    JNull
  | JBool bool
  | JNum int
  | JStr string
  | JArr "json list"
  | JObj "(string \<times> json) list"

definition opt_field :: "string \<Rightarrow> json option \<Rightarrow> (string \<times> json) list" where
  "opt_field k v = (case v of None \<Rightarrow> [] | Some x \<Rightarrow> [(k, x)])"

definition opt_str :: "string \<Rightarrow> string option \<Rightarrow> (string \<times> json) list" where
  "opt_str k v = opt_field k (map_option JStr v)"

section \<open>String operations of the source\<close>

text \<open>
  \<open>String.prototype.toLowerCase\<close> on the ASCII letters; every other character is
  left as it is. \<open>String.prototype.includes\<close> is the search for a contiguous
  occurrence, tried at every position from the left.
\<close>

definition toLowerChar :: "char \<Rightarrow> char" where
  "toLowerChar c =
     (let n = (of_char c :: nat) in if 65 \<le> n \<and> n \<le> 90 then char_of (n + 32) else c)"

definition toLowerCase :: "string \<Rightarrow> string" where
  "toLowerCase s = map toLowerChar s"

fun startsWith :: "string \<Rightarrow> string \<Rightarrow> bool" where
  "startsWith s [] = True"
| "startsWith [] (p # ps) = False"
| "startsWith (c # cs) (p # ps) = (c = p \<and> startsWith cs ps)"

fun str_includes :: "string \<Rightarrow> string \<Rightarrow> bool" where
  "str_includes [] p = startsWith [] p"
| "str_includes (c # cs) p = (startsWith (c # cs) p \<or> str_includes cs p)"

section \<open>Agent types, requests and the session table\<close>

datatype AgentType =
    CONTENT_CURATOR
  | LEARNING_STRATEGIST
  | PRACTICE_COACH
  | RESEARCH_ASSISTANT
  | CONVERSATION_COACH

fun agentTypeName :: "AgentType \<Rightarrow> string" where
  "agentTypeName CONTENT_CURATOR = ''CONTENT_CURATOR''"
| "agentTypeName LEARNING_STRATEGIST = ''LEARNING_STRATEGIST''"
| "agentTypeName PRACTICE_COACH = ''PRACTICE_COACH''"
| "agentTypeName RESEARCH_ASSISTANT = ''RESEARCH_ASSISTANT''"
| "agentTypeName CONVERSATION_COACH = ''CONVERSATION_COACH''"

text \<open>
  The \<open>data\<close> object of a request, with every property that one of the five
  handlers reads, at the type the handler's signature declares for it.
\<close>

record request_data =
  d_content :: string
  d_source :: "string option"
  d_userProfile :: json
  d_completedTopics :: json
  d_targetRole :: "string option"
  d_timeframe :: "int option"
  d_topicId :: "string option"
  d_difficulty :: string
  d_scenarioType :: "string option"
  d_query :: string
  d_topics :: "string list"
  d_depth :: "string option"
  d_message :: string
  d_context :: "json option"
  d_preferredAgent :: "AgentType option"

record request =
  r_type :: string
  r_data :: request_data

datatype session_status = ACTIVE | COMPLETED | FAILED | TIMEOUT

text \<open>A row of \<open>agent_sessions\<close> (models/AgentSession.js).\<close>

record AgentSession =
  s_id :: nat
  s_userId :: string
  s_agentType :: AgentType
  s_sessionId :: string
  s_context :: json
  s_messages :: "json list"
  s_status :: session_status
  s_startTime :: nat
  s_endTime :: "nat option"
  s_executionTimeMs :: "int option"
  s_tokensUsed :: int
  s_cost :: int
  s_resultData :: json
  s_errorMessage :: "string option"
  s_metadata :: json

text \<open>The \<open>updates\<close> object handed to \<open>AgentSessionModel.update\<close>.\<close>

record session_updates =
  up_status :: "session_status option"
  up_resultData :: "json option"
  up_errorMessage :: "string option"
  up_endTime :: "nat option"

text \<open>
  What a request does, in order: rows created (the row as inserted), agent methods
  called, rows updated.
\<close>

datatype event =
    SessionCreated AgentSession
  | HandlerInvoked AgentType string
  | SessionUpdated nat session_updates

text \<open>
  The state a request runs in: the session table, the next primary key the ORM
  hands out, and the events so far.
\<close>

record world =
  agent_sessions :: "AgentSession list"
  next_id :: nat
  trace :: "event list"

text \<open>
  What the request meets in its surroundings: the string \<open>generateSessionId()\<close>
  returns, the two results of \<open>new Date()\<close>, at session creation and at the session
  update, and the answer of the database to the insert of the session row: \<open>None\<close>
  when the row is accepted, else the message of the error \<open>AgentSessionModel.create\<close>
  throws (the user id has no row in \<open>users\<close>, the database is not reachable). An
  update of the row just inserted violates no constraint and is taken to succeed.
\<close>

record env =
  e_sessionId :: string
  e_startTime :: nat
  e_endTime :: nat
  e_insert :: "AgentSession \<Rightarrow> string option"

text \<open>
  A registered agent: the methods the orchestrator calls on it. A call returns the
  method's result, or the message of the error it throws.
\<close>

record agent =
  processContent :: "string \<Rightarrow> json \<Rightarrow> string + json"
  generatePath :: "json \<Rightarrow> string + json"
  generateScenario :: "json \<Rightarrow> string + json"
  conductResearch :: "json \<Rightarrow> string + json"
  processChat :: "json \<Rightarrow> string + json"

type_synonym registry = "AgentType \<rightharpoonup> agent"

section \<open>AgentOrchestrator\<close>


definition createAgentSession ::
  "env \<Rightarrow> string \<Rightarrow> AgentType \<Rightarrow> string \<Rightarrow> json \<Rightarrow> world
     \<Rightarrow> string + AgentSession \<times> world" where
  "createAgentSession e userId agentType sessionId context w =
     (let row = \<lparr> s_id = next_id w,
                  s_userId = userId,
                  s_agentType = agentType,
                  s_sessionId = sessionId,
                  s_context = context,
                  s_messages = [],
                  s_status = ACTIVE,
                  s_startTime = e_startTime e,
                  s_endTime = None,
                  s_executionTimeMs = None,
                  s_tokensUsed = 0,
                  s_cost = 0,
                  s_resultData = JObj [],
                  s_errorMessage = None,
                  s_metadata = JObj [] \<rparr>
      in case e_insert e row of
           Some message \<Rightarrow> Inl message
         | None \<Rightarrow> Inr (row, w\<lparr> agent_sessions := agent_sessions w @ [row],
                                  next_id := Suc (next_id w),
                                  trace := trace w @ [SessionCreated row] \<rparr>))"

definition applyUpdates :: "session_updates \<Rightarrow> AgentSession \<Rightarrow> AgentSession" where
  "applyUpdates u s =
     s\<lparr> s_status := (case up_status u of None \<Rightarrow> s_status s | Some v \<Rightarrow> v),
        s_resultData := (case up_resultData u of None \<Rightarrow> s_resultData s | Some v \<Rightarrow> v),
        s_errorMessage := (case up_errorMessage u of None \<Rightarrow> s_errorMessage s | Some v \<Rightarrow> Some v),
        s_endTime := (case up_endTime u of None \<Rightarrow> s_endTime s | Some v \<Rightarrow> Some v) \<rparr>"

definition updateAgentSession :: "nat \<Rightarrow> session_updates \<Rightarrow> world \<Rightarrow> world" where
  "updateAgentSession sessionId updates w =
     w\<lparr> agent_sessions := map (\<lambda>s. if s_id s = sessionId then applyUpdates updates s else s) (agent_sessions w),
        trace := trace w @ [SessionUpdated sessionId updates] \<rparr>"

definition invoked :: "AgentType \<Rightarrow> string \<Rightarrow> world \<Rightarrow> world" where
  "invoked t m w = w\<lparr> trace := trace w @ [HandlerInvoked t m] \<rparr>"

text \<open>The two ways a handler body ends: the last statements of \<open>try\<close>, and \<open>catch\<close>.\<close>

definition completed :: "AgentSession \<Rightarrow> string \<Rightarrow> json \<Rightarrow> env \<Rightarrow> world \<Rightarrow> (string + json) \<times> world" where
  "completed session key result e w =
     (Inr result,
      updateAgentSession (s_id session)
        \<lparr> up_status = Some COMPLETED,
          up_resultData = Some (JObj [(key, result)]),
          up_errorMessage = None,
          up_endTime = Some (e_endTime e) \<rparr> w)"

definition failed :: "AgentSession \<Rightarrow> string \<Rightarrow> env \<Rightarrow> world \<Rightarrow> (string + json) \<times> world" where
  "failed session message e w =
     (Inl message,
      updateAgentSession (s_id session)
        \<lparr> up_status = Some FAILED,
          up_resultData = None,
          up_errorMessage = Some message,
          up_endTime = Some (e_endTime e) \<rparr> w)"

definition processNewsletter ::
  "registry \<Rightarrow> env \<Rightarrow> string \<Rightarrow> request_data \<Rightarrow> world \<Rightarrow> (string + json) \<times> world" where
  "processNewsletter agents e userId data w =
     (let sessionId = e_sessionId e
      in case createAgentSession e userId CONTENT_CURATOR sessionId
                (JObj (opt_str ''source'' (d_source data))) w of
           Inl message \<Rightarrow> (Inl message, w)
         | Inr (session, w1) \<Rightarrow>
             (case agents CONTENT_CURATOR of
                None \<Rightarrow> failed session ''Content Curator Agent not available'' e w1
              | Some curatorAgent \<Rightarrow>
                  (case processContent curatorAgent (d_content data)
                          (JObj ([(''userId'', JStr userId), (''sessionId'', JStr sessionId)]
                                 @ opt_str ''source'' (d_source data))) of
                     Inl message \<Rightarrow>
                       failed session message e (invoked CONTENT_CURATOR ''processContent'' w1)
                   | Inr topics \<Rightarrow>
                       completed session ''topics'' topics e
                         (invoked CONTENT_CURATOR ''processContent'' w1))))"

definition generateLearningPath ::
  "registry \<Rightarrow> env \<Rightarrow> string \<Rightarrow> request_data \<Rightarrow> world \<Rightarrow> (string + json) \<times> world" where
  "generateLearningPath agents e userId data w =
     (let sessionId = e_sessionId e
      in case createAgentSession e userId LEARNING_STRATEGIST sessionId
                (JObj (opt_str ''targetRole'' (d_targetRole data)
                       @ opt_field ''timeframe'' (map_option JNum (d_timeframe data)))) w of
           Inl message \<Rightarrow> (Inl message, w)
         | Inr (session, w1) \<Rightarrow>
             (case agents LEARNING_STRATEGIST of
                None \<Rightarrow> failed session ''Learning Strategist Agent not available'' e w1
              | Some strategistAgent \<Rightarrow>
                  (case generatePath strategistAgent
                          (JObj ([(''userProfile'', d_userProfile data),
                                  (''completedTopics'', d_completedTopics data)]
                                 @ opt_str ''targetRole'' (d_targetRole data)
                                 @ opt_field ''timeframe'' (map_option JNum (d_timeframe data))
                                 @ [(''sessionId'', JStr sessionId)])) of
                     Inl message \<Rightarrow>
                       failed session message e (invoked LEARNING_STRATEGIST ''generatePath'' w1)
                   | Inr learningPath \<Rightarrow>
                       completed session ''learningPath'' learningPath e
                         (invoked LEARNING_STRATEGIST ''generatePath'' w1))))"

definition generatePracticeScenario ::
  "registry \<Rightarrow> env \<Rightarrow> string \<Rightarrow> request_data \<Rightarrow> world \<Rightarrow> (string + json) \<times> world" where
  "generatePracticeScenario agents e userId data w =
     (let sessionId = e_sessionId e
      in case createAgentSession e userId PRACTICE_COACH sessionId
                (JObj (opt_str ''topicId'' (d_topicId data)
                       @ [(''difficulty'', JStr (d_difficulty data))])) w of
           Inl message \<Rightarrow> (Inl message, w)
         | Inr (session, w1) \<Rightarrow>
             (case agents PRACTICE_COACH of
                None \<Rightarrow> failed session ''Practice Coach Agent not available'' e w1
              | Some coachAgent \<Rightarrow>
                  (case generateScenario coachAgent
                          (JObj (opt_str ''topicId'' (d_topicId data)
                                 @ [(''difficulty'', JStr (d_difficulty data)),
                                    (''userProfile'', d_userProfile data)]
                                 @ opt_str ''scenarioType'' (d_scenarioType data)
                                 @ [(''sessionId'', JStr sessionId)])) of
                     Inl message \<Rightarrow>
                       failed session message e (invoked PRACTICE_COACH ''generateScenario'' w1)
                   | Inr scenario \<Rightarrow>
                       completed session ''scenario'' scenario e
                         (invoked PRACTICE_COACH ''generateScenario'' w1))))"

definition processResearchQuery ::
  "registry \<Rightarrow> env \<Rightarrow> string \<Rightarrow> request_data \<Rightarrow> world \<Rightarrow> (string + json) \<times> world" where
  "processResearchQuery agents e userId data w =
     (let sessionId = e_sessionId e
      in case createAgentSession e userId RESEARCH_ASSISTANT sessionId
                (JObj [(''query'', JStr (d_query data)),
                       (''topics'', JArr (map JStr (d_topics data)))]) w of
           Inl message \<Rightarrow> (Inl message, w)
         | Inr (session, w1) \<Rightarrow>
             (case agents RESEARCH_ASSISTANT of
                None \<Rightarrow> failed session ''Research Assistant Agent not available'' e w1
              | Some researchAgent \<Rightarrow>
                  (case conductResearch researchAgent
                          (JObj [(''query'', JStr (d_query data)),
                                 (''topics'', JArr (map JStr (d_topics data))),
                                 (''depth'', JStr (case d_depth data of
                                                     None \<Rightarrow> ''detailed''
                                                   | Some v \<Rightarrow> if v = [] then ''detailed'' else v)),
                                 (''sessionId'', JStr sessionId)]) of
                     Inl message \<Rightarrow>
                       failed session message e (invoked RESEARCH_ASSISTANT ''conductResearch'' w1)
                   | Inr research \<Rightarrow>
                       completed session ''research'' research e
                         (invoked RESEARCH_ASSISTANT ''conductResearch'' w1))))"

definition determineOptimalAgent :: "request_data \<Rightarrow> AgentType" where
  "determineOptimalAgent data =
     (let message = toLowerCase (d_message data) in
      if str_includes message ''practice'' \<or> str_includes message ''scenario''
           \<or> str_includes message ''exercise'' then PRACTICE_COACH
      else if str_includes message ''research'' \<or> str_includes message ''latest''
           \<or> str_includes message ''trends'' then RESEARCH_ASSISTANT
      else if str_includes message ''path'' \<or> str_includes message ''roadmap''
           \<or> str_includes message ''plan'' then LEARNING_STRATEGIST
      else if str_includes message ''newsletter'' \<or> str_includes message ''article''
           \<or> str_includes message ''content'' then CONTENT_CURATOR
      else CONVERSATION_COACH)"

definition processChatRequest ::
  "registry \<Rightarrow> env \<Rightarrow> string \<Rightarrow> request_data \<Rightarrow> world \<Rightarrow> (string + json) \<times> world" where
  "processChatRequest agents e userId data w =
     (let sessionId = e_sessionId e;
          agentType = (case d_preferredAgent data of
                         Some preferred \<Rightarrow> preferred
                       | None \<Rightarrow> determineOptimalAgent data)
      in case createAgentSession e userId agentType sessionId
                (JObj (opt_str ''topicId'' (d_topicId data)
                       @ [(''originalMessage'', JStr (d_message data))])) w of
           Inl message \<Rightarrow> (Inl message, w)
         | Inr (session, w1) \<Rightarrow>
             (case agents agentType of
                None \<Rightarrow> failed session (agentTypeName agentType @ '' Agent not available'') e w1
              | Some a \<Rightarrow>
                  (case processChat a
                          (JObj ([(''message'', JStr (d_message data))]
                                 @ opt_str ''topicId'' (d_topicId data)
                                 @ opt_field ''context'' (d_context data)
                                 @ [(''userId'', JStr userId), (''sessionId'', JStr sessionId)])) of
                     Inl message \<Rightarrow> failed session message e (invoked agentType ''processChat'' w1)
                   | Inr response \<Rightarrow>
                       completed session ''response'' response e
                         (invoked agentType ''processChat'' w1))))"

definition processLearningRequest ::
  "registry \<Rightarrow> env \<Rightarrow> string \<Rightarrow> request \<Rightarrow> world \<Rightarrow> (string + json) \<times> world" where
  "processLearningRequest agents e userId request w =
     (if r_type request = ''NEWSLETTER_PROCESSING'' then
        processNewsletter agents e userId (r_data request) w
      else if r_type request = ''LEARNING_PATH_GENERATION'' then
        generateLearningPath agents e userId (r_data request) w
      else if r_type request = ''PRACTICE_SCENARIO'' then
        generatePracticeScenario agents e userId (r_data request) w
      else if r_type request = ''RESEARCH_QUERY'' then
        processResearchQuery agents e userId (r_data request) w
      else if r_type request = ''CHAT'' then
        processChatRequest agents e userId (r_data request) w
      else (Inl (''Unknown request type: '' @ r_type request), w))"

section \<open>The routing of chat requests, as the specification words it\<close>

text \<open>
  A fixed table of keyword groups, scanned in order; the first group with a keyword
  that occurs in the text decides, and \<open>CONVERSATION_COACH\<close> is the fallback.
\<close>

definition routing_table :: "(string list \<times> AgentType) list" where
  "routing_table =
     [([''practice'', ''scenario'', ''exercise''], PRACTICE_COACH),
      ([''research'', ''latest'', ''trends''], RESEARCH_ASSISTANT),
      ([''path'', ''roadmap'', ''plan''], LEARNING_STRATEGIST),
      ([''newsletter'', ''article'', ''content''], CONTENT_CURATOR)]"

fun scan_keywords :: "(string list \<times> AgentType) list \<Rightarrow> string \<Rightarrow> AgentType" where
  "scan_keywords [] text = CONVERSATION_COACH"
| "scan_keywords ((keywords, a) # rest) text =
     (if list_ex (\<lambda>k. sublist k text) keywords then a else scan_keywords rest text)"


section \<open>The HTTP layer of the assembled server\<close>

record JWTPayload =
  j_userId :: string
  j_email :: string
  j_role :: string
  j_iat :: nat
  j_exp :: nat

record http_response =
  res_status :: nat
  res_body :: json

definition json_ok :: "json \<Rightarrow> http_response" where
  "json_ok d = \<lparr> res_status = 200, res_body = JObj [(''success'', JBool True), (''data'', d)] \<rparr>"

definition json_error :: "nat \<Rightarrow> string \<Rightarrow> http_response" where
  "json_error code message =
     \<lparr> res_status = code, res_body = JObj [(''success'', JBool False), (''error'', JStr message)] \<rparr>"



section \<open>Users and authentication\<close>

text \<open>A row of \<open>users\<close> (the User model) and the profile the API returns.\<close>

record User =
  u_id :: string
  u_email :: string
  u_password :: string
  u_firstName :: string
  u_lastName :: string
  u_role :: string
  u_experience :: string
  u_learningGoals :: "string option"
  u_industry :: "string option"
  u_preferences :: json
  u_lastActive :: nat
  u_isActive :: bool

record UserProfile =
  p_id :: string
  p_email :: string
  p_firstName :: string
  p_lastName :: string
  p_role :: string
  p_experience :: string
  p_learningGoals :: "string option"
  p_industry :: "string option"
  p_preferences :: json
  p_lastActive :: nat
  p_isActive :: bool

text \<open>The payload \<open>generateToken\<close> signs; the library adds \<open>iat\<close> and \<open>exp\<close>.\<close>

record token_claims =
  c_userId :: string
  c_email :: string
  c_role :: string

text \<open>
  The libraries the service calls, as parameters: \<open>bcrypt.hash\<close> (password, salt
  rounds), \<open>bcrypt.compare\<close> (password, stored hash), \<open>jwt.sign\<close> (payload, secret,
  lifetime in seconds, time of signing), \<open>jwt.verify\<close> (token, secret, time of
  verification; \<open>None\<close> when it reports an error), and the validation the ORM runs
  before it inserts a user (\<open>None\<close> when the row is accepted, else the message).
  Times are in seconds.
\<close>

record 'tok libs =
  bcrypt_hash :: "string \<Rightarrow> nat \<Rightarrow> string"
  bcrypt_compare :: "string \<Rightarrow> string \<Rightarrow> bool"
  jwt_sign :: "token_claims \<Rightarrow> string \<Rightarrow> nat \<Rightarrow> nat \<Rightarrow> 'tok"
  jwt_verify :: "'tok \<Rightarrow> string \<Rightarrow> nat \<Rightarrow> JWTPayload option"
  orm_validate :: "User \<Rightarrow> string option"

text \<open>
  \<open>process.env\<close>: the secret, and the lifetime \<open>JWT_EXPIRES_IN\<close> denotes, in
  seconds.
\<close>

record process_env =
  JWT_SECRET :: "string option"
  JWT_EXPIRES_IN :: "nat option"

text \<open>The fields the constructor of \<open>AuthService\<close> sets; \<open>7d\<close> is 604800 seconds.\<close>

definition jwtSecret :: "process_env \<Rightarrow> string" where
  "jwtSecret penv =
     (case JWT_SECRET penv of
        None \<Rightarrow> ''fallback-secret-change-in-production''
      | Some s \<Rightarrow> if s = [] then ''fallback-secret-change-in-production'' else s)"

definition jwtExpiresIn :: "process_env \<Rightarrow> nat" where
  "jwtExpiresIn penv = (case JWT_EXPIRES_IN penv of None \<Rightarrow> 604800 | Some n \<Rightarrow> n)"

definition findOne_email :: "User list \<Rightarrow> string \<Rightarrow> User option" where
  "findOne_email users email = find (\<lambda>u. u_email u = email) users"

definition findByPk :: "User list \<Rightarrow> string \<Rightarrow> User option" where
  "findByPk users userId = find (\<lambda>u. u_id u = userId) users"

definition save_user :: "User \<Rightarrow> User list \<Rightarrow> User list" where
  "save_user user users = map (\<lambda>u. if u_id u = u_id user then user else u) users"

definition sanitizeUser :: "User \<Rightarrow> UserProfile" where
  "sanitizeUser user =
     \<lparr> p_id = u_id user,
       p_email = u_email user,
       p_firstName = u_firstName user,
       p_lastName = u_lastName user,
       p_role = u_role user,
       p_experience = u_experience user,
       p_learningGoals = u_learningGoals user,
       p_industry = u_industry user,
       p_preferences = u_preferences user,
       p_lastActive = u_lastActive user,
       p_isActive = u_isActive user \<rparr>"

definition generateToken :: "'tok libs \<Rightarrow> process_env \<Rightarrow> nat \<Rightarrow> User \<Rightarrow> 'tok" where
  "generateToken L penv now user =
     jwt_sign L \<lparr> c_userId = u_id user, c_email = u_email user, c_role = u_role user \<rparr>
       (jwtSecret penv) (jwtExpiresIn penv) now"


record registration =
  rg_email :: string
  rg_password :: string
  rg_firstName :: string
  rg_lastName :: string
  rg_role :: "string option"
  rg_experience :: "string option"
  rg_learningGoals :: "string option"
  rg_industry :: "string option"

text \<open>
  \<open>register\<close>; \<open>newId\<close> is the primary key the ORM generates and \<open>now\<close> the
  current time. The model defaults of role, experience, last activity and the active
  flag are filled in as the User model declares them.
\<close>

definition register ::
  "'tok libs \<Rightarrow> process_env \<Rightarrow> string \<Rightarrow> nat \<Rightarrow> registration \<Rightarrow> User list
     \<Rightarrow> (string + UserProfile \<times> 'tok) \<times> User list" where
  "register L penv newId now userData users =
     (case findOne_email users (rg_email userData) of
        Some existingUser \<Rightarrow>
          (Inl (''Registration failed: '' @ ''User with this email already exists''), users)
      | None \<Rightarrow>
          (let hashedPassword = bcrypt_hash L (rg_password userData) 12;
               user = \<lparr> u_id = newId,
                        u_email = rg_email userData,
                        u_password = hashedPassword,
                        u_firstName = rg_firstName userData,
                        u_lastName = rg_lastName userData,
                        u_role = (case rg_role userData of None \<Rightarrow> ''Other'' | Some r \<Rightarrow> r),
                        u_experience = (case rg_experience userData of
                                          None \<Rightarrow> ''Beginner'' | Some x \<Rightarrow> x),
                        u_learningGoals = rg_learningGoals userData,
                        u_industry = rg_industry userData,
                        u_preferences = JObj [(''dailyTimeGoal'', JNum 30),
                                              (''difficulty'', JStr ''medium''),
                                              (''topics'', JArr []),
                                              (''reminderTime'', JStr ''09:00'')],
                        u_lastActive = now,
                        u_isActive = True \<rparr>
           in case orm_validate L user of
                Some message \<Rightarrow> (Inl (''Registration failed: '' @ message), users)
              | None \<Rightarrow>
                  (let token = generateToken L penv now user;
                       userProfile = sanitizeUser user
                   in (Inr (userProfile, token), users @ [user]))))"

definition login ::
  "'tok libs \<Rightarrow> process_env \<Rightarrow> nat \<Rightarrow> string \<Rightarrow> string \<Rightarrow> User list
     \<Rightarrow> (string + UserProfile \<times> 'tok) \<times> User list" where
  "login L penv now email password users =
     (case findOne_email users email of
        None \<Rightarrow> (Inl (''Login failed: '' @ ''Invalid email or password''), users)
      | Some found \<Rightarrow>
          if \<not> bcrypt_compare L password (u_password found) then
            (Inl (''Login failed: '' @ ''Invalid email or password''), users)
          else
            (let user = found\<lparr> u_lastActive := now \<rparr>;
                 token = generateToken L penv now user;
                 userProfile = sanitizeUser user
             in (Inr (userProfile, token), save_user user users)))"

definition getUserById :: "User list \<Rightarrow> string \<Rightarrow> UserProfile option" where
  "getUserById users userId =
     (case findByPk users userId of
        None \<Rightarrow> None
      | Some user \<Rightarrow> Some (sanitizeUser user))"

text \<open>\<open>Partial<UserProfile>\<close>: each property may be absent.\<close>

record profile_updates =
  pu_email :: "string option"
  pu_firstName :: "string option"
  pu_lastName :: "string option"
  pu_role :: "string option"
  pu_experience :: "string option"
  pu_learningGoals :: "string option"
  pu_industry :: "string option"
  pu_preferences :: "json option"
  pu_lastActive :: "nat option"
  pu_isActive :: "bool option"

definition or_else :: "'a option \<Rightarrow> 'a \<Rightarrow> 'a" where
  "or_else v d = (case v of None \<Rightarrow> d | Some x \<Rightarrow> x)"

definition apply_profile_updates :: "profile_updates \<Rightarrow> User \<Rightarrow> User" where
  "apply_profile_updates updates user =
     user\<lparr> u_email := or_else (pu_email updates) (u_email user),
           u_firstName := or_else (pu_firstName updates) (u_firstName user),
           u_lastName := or_else (pu_lastName updates) (u_lastName user),
           u_role := or_else (pu_role updates) (u_role user),
           u_experience := or_else (pu_experience updates) (u_experience user),
           u_learningGoals := (case pu_learningGoals updates of
                                 None \<Rightarrow> u_learningGoals user | Some x \<Rightarrow> Some x),
           u_industry := (case pu_industry updates of
                            None \<Rightarrow> u_industry user | Some x \<Rightarrow> Some x),
           u_preferences := or_else (pu_preferences updates) (u_preferences user),
           u_lastActive := or_else (pu_lastActive updates) (u_lastActive user),
           u_isActive := or_else (pu_isActive updates) (u_isActive user) \<rparr>"

definition updateUser ::
  "string \<Rightarrow> profile_updates \<Rightarrow> User list \<Rightarrow> (string + UserProfile) \<times> User list" where
  "updateUser userId updates users =
     (case findByPk users userId of
        None \<Rightarrow> (Inl (''Failed to update user: '' @ ''User not found''), users)
      | Some found \<Rightarrow>
          (let user = apply_profile_updates updates found
           in (Inr (sanitizeUser user), save_user user users)))"

section \<open>The authentication middleware\<close>

text \<open>\<open>String.prototype.split\<close> with a one-character separator, and \<open>xs[i]\<close>.\<close>

fun split_on :: "char \<Rightarrow> string \<Rightarrow> string list" where
  "split_on sep [] = [[]]"
| "split_on sep (c # cs) =
     (if c = sep then [] # split_on sep cs
      else (case split_on sep cs of
              [] \<Rightarrow> [[c]]
            | x # xs \<Rightarrow> (c # x) # xs))"

definition at_index :: "'a list \<Rightarrow> nat \<Rightarrow> 'a option" where
  "at_index xs i = (if i < length xs then Some (xs ! i) else None)"

text \<open>
  \<open>authHeader && authHeader.split(' ')[1]\<close>: \<open>None\<close> stands for \<open>undefined\<close>; an
  empty header is itself the (falsy) value.
\<close>

definition header_token :: "string option \<Rightarrow> string option" where
  "header_token authHeader =
     (case authHeader of
        None \<Rightarrow> None
      | Some h \<Rightarrow> if h = [] then Some [] else at_index (split_on CHR '' '' h) 1)"

datatype 'a middleware = Responded http_response | Next 'a

definition authenticateToken ::
  "string libs \<Rightarrow> process_env \<Rightarrow> nat \<Rightarrow> string option \<Rightarrow> JWTPayload middleware" where
  "authenticateToken L penv now authHeader =
     (case header_token authHeader of
        None \<Rightarrow> Responded (json_error 401 ''Access token is required'')
      | Some token \<Rightarrow>
          if token = [] then Responded (json_error 401 ''Access token is required'')
          else
            (case JWT_SECRET penv of
               None \<Rightarrow> Responded (json_error 500 ''JWT configuration error'')
             | Some secret \<Rightarrow>
                 if secret = [] then Responded (json_error 500 ''JWT configuration error'')
                 else
                   (case jwt_verify L token secret now of
                      None \<Rightarrow> Responded (json_error 403 ''Invalid or expired token'')
                    | Some decoded \<Rightarrow> Next decoded)))"

text \<open>
  A route registered as \<open>app.get(path, authenticateToken, handler)\<close>: the handler
  runs when the middleware calls \<open>next()\<close>.
\<close>

definition guarded ::
  "string libs \<Rightarrow> process_env \<Rightarrow> nat \<Rightarrow> string option
     \<Rightarrow> (JWTPayload \<Rightarrow> 'w \<Rightarrow> http_response \<times> 'w) \<Rightarrow> 'w \<Rightarrow> http_response \<times> 'w" where
  "guarded L penv now authHeader handler w =
     (case authenticateToken L penv now authHeader of
        Responded response \<Rightarrow> (response, w)
      | Next user \<Rightarrow> handler user w)"




text \<open>Two user rows that differ at most in the stored password hash.\<close>

definition same_but_password :: "User \<Rightarrow> User \<Rightarrow> bool" where
  "same_but_password u u' = (u' = u\<lparr> u_password := u_password u' \<rparr>)"

section \<open>LearningAnalyticsEngine\<close>

text \<open>
  The columns of \<open>user_progress\<close> and \<open>learning_sessions\<close> that the four
  aggregates read. A \<open>Date\<close> is its time value, the milliseconds since the epoch; a
  nullable column is an option. The results are JavaScript numbers, taken here as exact
  rationals.
\<close>

record UserProgress =
  pr_userId :: string
  pr_topicId :: string
  pr_status :: string
  pr_timeSpentMinutes :: int
  pr_completedAt :: "int option"

record LearningSession =
  ls_userId :: string
  ls_topicId :: string
  ls_startTime :: int
  ls_confidenceBefore :: "int option"
  ls_confidenceAfter :: "int option"

record analytics_db =
  a_users :: "User list"
  a_progress :: "UserProgress list"
  a_sessions :: "LearningSession list"

text \<open>The four aggregates of the \<open>LearningAnalytics\<close> object.\<close>

record LearningAnalytics =
  la_userId :: string
  la_totalTopicsCompleted :: nat
  la_totalTimeSpentMinutes :: int
  la_learningVelocity :: rat
  la_averageConfidenceGain :: rat

text \<open>A nullable number in a condition (\<open>null\<close> and 0 are falsy) and in arithmetic.\<close>

definition truthy :: "int option \<Rightarrow> bool" where
  "truthy v = (case v of None \<Rightarrow> False | Some n \<Rightarrow> n \<noteq> 0)"

definition num :: "int option \<Rightarrow> int" where
  "num v = (case v of None \<Rightarrow> 0 | Some n \<Rightarrow> n)"

text \<open>\<open>findAll\<close> with \<open>where: { userId }\<close>, for sessions ordered by start time, latest first.\<close>

definition findAll_progress :: "UserProgress list \<Rightarrow> string \<Rightarrow> UserProgress list" where
  "findAll_progress table userId = filter (\<lambda>p. pr_userId p = userId) table"

definition findAll_sessions :: "LearningSession list \<Rightarrow> string \<Rightarrow> LearningSession list" where
  "findAll_sessions table userId =
     rev (sort_key ls_startTime (filter (\<lambda>s. ls_userId s = userId) table))"

text \<open>
  The queries the computation awaits outside a \<open>try\<close> of their own or inside one:
  \<open>User.findByPk\<close>, the \<open>Promise.all\<close> of the two \<open>findAll\<close>, \<open>UserProgress.count\<close>
  of the velocity, and \<open>LearningSession.count\<close> of the recommendations.
\<close>

datatype query = FindUser | FindRows | CountCompletions | CountActivity

text \<open>
  The surroundings of one computation: the time value of \<open>new Date()\<close>, the local time
  zone adjustment \<open>LocalTZA(t, isUTC)\<close> of the runtime (the offset of local time from
  UTC in milliseconds, at the UTC time value \<open>t\<close> when \<open>isUTC\<close> holds, at the local time
  value \<open>t\<close> otherwise), and for each query the error with which the database rejects it,
  \<open>None\<close> when it answers.
\<close>

record analytics_env =
  ae_now :: int
  ae_LocalTZA :: "int \<Rightarrow> bool \<Rightarrow> int"
  ae_rejects :: "query \<Rightarrow> string option"

definition msPerDay :: int where
  "msPerDay = 86400000"

definition LocalTime :: "analytics_env \<Rightarrow> int \<Rightarrow> int" where
  "LocalTime ae t = t + ae_LocalTZA ae t True"

definition UTC :: "analytics_env \<Rightarrow> int \<Rightarrow> int" where
  "UTC ae t = t - ae_LocalTZA ae t False"

text \<open>
  \<open>d.setDate(d.getDate() - 28)\<close> on a date with time value \<open>tv\<close>. With
  \<open>t = LocalTime(tv)\<close>, \<open>getDate()\<close> is \<open>DateFromTime(t)\<close> and \<open>setDate(dt)\<close> sets the
  time value to \<open>UTC(MakeDate(MakeDay(YearFromTime(t), MonthFromTime(t), dt), TimeWithinDay(t)))\<close>.
  \<open>MakeDay(y, m, dt)\<close> is the day number of the first of the month plus \<open>dt - 1\<close>, which for
  \<open>dt = DateFromTime(t) - 28\<close> is \<open>Day(t) - 28\<close>: the local time value moves back by 28
  days of \<open>msPerDay\<close> and keeps its time within the day.
\<close>

definition setDate_back28 :: "analytics_env \<Rightarrow> int \<Rightarrow> int" where
  "setDate_back28 ae tv = UTC ae (LocalTime ae tv - 28 * msPerDay)"

definition calculateLearningVelocity :: "analytics_env \<Rightarrow> UserProgress list \<Rightarrow> string \<Rightarrow> rat" where
  "calculateLearningVelocity ae table userId =
     (let fourWeeksAgo = setDate_back28 ae (ae_now ae)
      in case ae_rejects ae CountCompletions of
           Some message \<Rightarrow> 0
         | None \<Rightarrow>
             (let recentCompletions =
                    length (filter (\<lambda>p. pr_userId p = userId \<and> pr_status p = ''COMPLETED''
                                        \<and> (case pr_completedAt p of
                                              None \<Rightarrow> False
                                            | Some t \<Rightarrow> fourWeeksAgo \<le> t)) table)
              in of_nat recentCompletions / 4))"

definition calculateAverageConfidenceGain :: "LearningSession list \<Rightarrow> rat" where
  "calculateAverageConfidenceGain sessions =
     (let sessionsWithGain =
            filter (\<lambda>s. truthy (ls_confidenceBefore s) \<and> truthy (ls_confidenceAfter s)
                        \<and> num (ls_confidenceAfter s) > num (ls_confidenceBefore s)) sessions
      in if length sessionsWithGain = 0 then 0
         else
           (let totalGain =
                  foldl (\<lambda>sum s. sum + (num (ls_confidenceAfter s) - num (ls_confidenceBefore s)))
                    0 sessionsWithGain
            in of_int totalGain / of_nat (length sessionsWithGain)))"

text \<open>
  \<open>calculateUserAnalytics\<close>. The streaks, the weekly progress and the skill gaps catch
  their own errors and the topics by category run no query, so of the steps after the
  four aggregates only the activity count of \<open>generateRecommendations\<close> can end the
  computation; every error leaves through the outer \<open>catch\<close>.
\<close>

definition calculateUserAnalytics ::
  "analytics_env \<Rightarrow> analytics_db \<Rightarrow> string \<Rightarrow> string + LearningAnalytics" where
  "calculateUserAnalytics ae db userId =
     (case ae_rejects ae FindUser of
        Some message \<Rightarrow> Inl (''Analytics calculation failed: '' @ message)
      | None \<Rightarrow>
     (case findByPk (a_users db) userId of
        None \<Rightarrow> Inl (''Analytics calculation failed: '' @ ''User not found'')
      | Some user \<Rightarrow>
     (case ae_rejects ae FindRows of
        Some message \<Rightarrow> Inl (''Analytics calculation failed: '' @ message)
      | None \<Rightarrow>
          (let userProgress = findAll_progress (a_progress db) userId;
               learningSessions = findAll_sessions (a_sessions db) userId;
               totalTopicsCompleted = length (filter (\<lambda>p. pr_status p = ''COMPLETED'') userProgress);
               totalTimeSpentMinutes = foldl (\<lambda>sum p. sum + pr_timeSpentMinutes p) 0 userProgress;
               learningVelocity = calculateLearningVelocity ae (a_progress db) userId;
               averageConfidenceGain = calculateAverageConfidenceGain learningSessions
           in case ae_rejects ae CountActivity of
                Some message \<Rightarrow> Inl (''Analytics calculation failed: '' @ message)
              | None \<Rightarrow>
                  Inr \<lparr> la_userId = userId,
                        la_totalTopicsCompleted = totalTopicsCompleted,
                        la_totalTimeSpentMinutes = totalTimeSpentMinutes,
                        la_learningVelocity = learningVelocity,
                        la_averageConfidenceGain = averageConfidenceGain \<rparr>))))"

text \<open>
  The velocity as the specification words it: the number of the user's completions in
  the 28 days of 24 hours that end now, divided by 4.
\<close>

definition spec_learningVelocity :: "UserProgress list \<Rightarrow> int \<Rightarrow> string \<Rightarrow> rat" where
  "spec_learningVelocity table now userId =
     of_nat (length (filter (\<lambda>p. pr_userId p = userId \<and> pr_status p = ''COMPLETED''
                                \<and> (case pr_completedAt p of
                                      None \<Rightarrow> False
                                    | Some t \<Rightarrow> now - 28 * msPerDay \<le> t \<and> t \<le> now)) table)) / 4"

text \<open>
  The average confidence gain as the specification words it: the arithmetic mean of
  after minus before over the user's sessions that record both values.
\<close>

definition mean :: "int list \<Rightarrow> rat" where
  "mean xs = of_int (sum_list xs) / of_nat (length xs)"

definition spec_averageConfidenceGain :: "LearningSession list \<Rightarrow> string \<Rightarrow> rat" where
  "spec_averageConfidenceGain table userId =
     mean (map (\<lambda>s. num (ls_confidenceAfter s) - num (ls_confidenceBefore s))
            (filter (\<lambda>s. ls_userId s = userId
                        \<and> ls_confidenceBefore s \<noteq> None \<and> ls_confidenceAfter s \<noteq> None) table))"

section \<open>BaseAgent and ContentCuratorAgent\<close>




















section \<open>The standalone server\<close>









section \<open>Sample values\<close>

definition no_data :: request_data where
  "no_data = \<lparr> d_content = [], d_source = None, d_userProfile = JNull,
               d_completedTopics = JNull, d_targetRole = None, d_timeframe = None,
               d_topicId = None, d_difficulty = [], d_scenarioType = None, d_query = [],
               d_topics = [], d_depth = None, d_message = [], d_context = None,
               d_preferredAgent = None \<rparr>"

definition world0 :: world where
  "world0 = \<lparr> agent_sessions = [], next_id = 0, trace = [] \<rparr>"

definition env0 :: env where
  "env0 = \<lparr> e_sessionId = ''session_1_abc'', e_startTime = 1000, e_endTime = 1250,
             e_insert = (\<lambda>row. None) \<rparr>"





definition user0 :: JWTPayload where
  "user0 = \<lparr> j_userId = ''u1'', j_email = ''ann@example.com'', j_role = ''PM'',
              j_iat = 0, j_exp = 604800 \<rparr>"

definition ann :: User where
  "ann = \<lparr> u_id = ''u1'', u_email = ''ann@example.com'', u_password = ''bcrypt:pw'',
           u_firstName = ''Ann'', u_lastName = ''Lee'', u_role = ''PM'',
           u_experience = ''Beginner'', u_learningGoals = None, u_industry = None,
           u_preferences = JObj [], u_lastActive = 0, u_isActive = True \<rparr>"

definition penv0 :: process_env where
  "penv0 = \<lparr> JWT_SECRET = Some ''s3cret'', JWT_EXPIRES_IN = None \<rparr>"


definition demo_libs :: "string libs" where
  "demo_libs =
     \<lparr> bcrypt_hash = (\<lambda>password rounds. ''bcrypt:'' @ password),
       bcrypt_compare = (\<lambda>password hash. hash = ''bcrypt:'' @ password),
       jwt_sign = (\<lambda>claims secret ttl now. c_userId claims @ ''.'' @ secret),
       jwt_verify = (\<lambda>token secret now.
                       if token = ''u1.'' @ secret \<and> now < 604800
                       then Some user0 else None),
       orm_validate = (\<lambda>user. None) \<rparr>"

definition users0 :: "User list" where
  "users0 = [ann]"

text \<open>
  Ann's rows on 2024-04-10 at 12:00 UTC: a topic completed on 2024-03-13 at 12:30 UTC,
  a topic in progress, and two sessions.
\<close>

definition db0 :: analytics_db where
  "db0 = \<lparr> a_users = [ann],
           a_progress =
             [\<lparr> pr_userId = ''u1'', pr_topicId = ''t1'', pr_status = ''COMPLETED'',
                pr_timeSpentMinutes = 30, pr_completedAt = Some 1710333000000 \<rparr>,
              \<lparr> pr_userId = ''u1'', pr_topicId = ''t2'', pr_status = ''IN_PROGRESS'',
                pr_timeSpentMinutes = 12, pr_completedAt = None \<rparr>,
              \<lparr> pr_userId = ''u2'', pr_topicId = ''t1'', pr_status = ''COMPLETED'',
                pr_timeSpentMinutes = 45, pr_completedAt = Some 1712685600000 \<rparr>],
           a_sessions =
             [\<lparr> ls_userId = ''u1'', ls_topicId = ''t1'', ls_startTime = 1710331200000,
                ls_confidenceBefore = Some 5, ls_confidenceAfter = Some 7 \<rparr>,
              \<lparr> ls_userId = ''u1'', ls_topicId = ''t2'', ls_startTime = 1712566800000,
                ls_confidenceBefore = Some 6, ls_confidenceAfter = Some 4 \<rparr>] \<rparr>"

text \<open>The same rows and a third topic of Ann's whose completion is dated 2024-05-01.\<close>

definition db_postdated :: analytics_db where
  "db_postdated =
     db0\<lparr> a_progress := a_progress db0 @
            [\<lparr> pr_userId = ''u1'', pr_topicId = ''t3'', pr_status = ''COMPLETED'',
               pr_timeSpentMinutes = 20, pr_completedAt = Some 1714521600000 \<rparr>] \<rparr>"

text \<open>
  That moment on a server that runs in UTC, on one whose count query is refused, and on
  one that runs in Central European time, where summer time began on 2024-03-31 at
  01:00 UTC (02:00 local time, which became 03:00).
\<close>

definition ae_utc :: analytics_env where
  "ae_utc = \<lparr> ae_now = 1712750400000, ae_LocalTZA = (\<lambda>t isUTC. 0),
              ae_rejects = (\<lambda>q. None) \<rparr>"

definition ae_count_refused :: analytics_env where
  "ae_count_refused =
     ae_utc\<lparr> ae_rejects := (\<lambda>q. if q = CountCompletions then Some ''Connection terminated''
                                else None) \<rparr>"

definition ae_berlin :: analytics_env where
  "ae_berlin =
     ae_utc\<lparr> ae_LocalTZA := (\<lambda>t isUTC.
                if t < (if isUTC then 1711846800000 else 1711854000000) then 3600000
                else 7200000) \<rparr>"






section \<open>Properties of the orchestrator\<close>

lemma startsWith_prefix: "startsWith s p = prefix p s"
  by (induction s p rule: startsWith.induct) auto

lemma str_includes_sublist: "str_includes s p = sublist p s"
  by (induction s) (auto simp: startsWith_prefix sublist_Cons_right)

lemma determineOptimalAgent_scan:
  "determineOptimalAgent data = scan_keywords routing_table (toLowerCase (d_message data))"
  by (simp add: determineOptimalAgent_def routing_table_def str_includes_sublist Let_def)


lemmas orchestrator_defs =
  updateAgentSession_def applyUpdates_def invoked_def completed_def failed_def

lemma createAgentSession_cases:
  obtains row where
    "s_id row = next_id w" "s_userId row = userId" "s_agentType row = agentType"
    "s_sessionId row = sessionId" "s_status row = ACTIVE" "s_startTime row = e_startTime e"
    "s_endTime row = None" "s_tokensUsed row = 0" "s_cost row = 0" "s_errorMessage row = None"
    "createAgentSession e userId agentType sessionId ctx w =
       (case e_insert e row of
          Some message \<Rightarrow> Inl message
        | None \<Rightarrow> Inr (row, w\<lparr> agent_sessions := agent_sessions w @ [row],
                                 next_id := Suc (next_id w),
                                 trace := trace w @ [SessionCreated row] \<rparr>))"
proof -
  let ?row = "\<lparr> s_id = next_id w, s_userId = userId, s_agentType = agentType,
                 s_sessionId = sessionId, s_context = ctx, s_messages = [],
                 s_status = ACTIVE, s_startTime = e_startTime e, s_endTime = None,
                 s_executionTimeMs = None, s_tokensUsed = 0, s_cost = 0,
                 s_resultData = JObj [], s_errorMessage = None, s_metadata = JObj [] \<rparr>"
  show thesis
    by (rule that [of ?row]) (simp_all add: createAgentSession_def Let_def)
qed


lemma chat_selection:
  "\<exists>created. s_agentType created =
                 (case d_preferredAgent data of Some p \<Rightarrow> p | None \<Rightarrow> determineOptimalAgent data)
     \<and> s_status created = ACTIVE
     \<and> (case e_insert e created of
           Some message \<Rightarrow> processChatRequest agents e userId data w = (Inl message, w)
         | None \<Rightarrow>
             s_agentType (last (agent_sessions (snd (processChatRequest agents e userId data w)))) =
               (case d_preferredAgent data of Some p \<Rightarrow> p | None \<Rightarrow> determineOptimalAgent data)
             \<and> fst (processChatRequest agents e userId data w) =
                 (case agents (case d_preferredAgent data of
                                 Some p \<Rightarrow> p
                               | None \<Rightarrow> determineOptimalAgent data) of
                    None \<Rightarrow> Inl (agentTypeName (case d_preferredAgent data of
                                                  Some p \<Rightarrow> p
                                                | None \<Rightarrow> determineOptimalAgent data)
                                  @ '' Agent not available'')
                  | Some a \<Rightarrow>
                      processChat a
                        (JObj ([(''message'', JStr (d_message data))]
                               @ opt_str ''topicId'' (d_topicId data)
                               @ opt_field ''context'' (d_context data)
                               @ [(''userId'', JStr userId), (''sessionId'', JStr (e_sessionId e))])))
             \<and> (\<exists>u. trace (snd (processChatRequest agents e userId data w)) =
                      trace w @ [SessionCreated created]
                        @ (case agents (case d_preferredAgent data of
                                          Some p \<Rightarrow> p
                                        | None \<Rightarrow> determineOptimalAgent data) of
                             None \<Rightarrow> []
                           | Some a \<Rightarrow> [HandlerInvoked (case d_preferredAgent data of
                                                      Some p \<Rightarrow> p
                                                    | None \<Rightarrow> determineOptimalAgent data)
                                         ''processChat''])
                        @ [SessionUpdated (next_id w) u]))"
proof -
  let ?t = "case d_preferredAgent data of Some p \<Rightarrow> p | None \<Rightarrow> determineOptimalAgent data"
  let ?ctx = "JObj (opt_str ''topicId'' (d_topicId data)
                    @ [(''originalMessage'', JStr (d_message data))])"
  obtain row where r: "s_id row = next_id w" "s_agentType row = ?t" "s_status row = ACTIVE"
    and c: "createAgentSession e userId ?t (e_sessionId e) ?ctx w =
       (case e_insert e row of
          Some message \<Rightarrow> Inl message
        | None \<Rightarrow> Inr (row, w\<lparr> agent_sessions := agent_sessions w @ [row],
                                 next_id := Suc (next_id w),
                                 trace := trace w @ [SessionCreated row] \<rparr>))"
    by (rule createAgentSession_cases
          [where w = w and userId = userId and agentType = ?t and sessionId = "e_sessionId e"
             and e = e and ctx = ?ctx]) blast
  show ?thesis
    apply (rule exI [of _ row])
    using r
    by (auto simp: processChatRequest_def Let_def c orchestrator_defs last_map
             split: option.splits sum.splits)
qed

text \<open>
  Claim C1. A chat request that names no \<open>preferredAgent\<close> is handled by the agent the
  keyword scan of the lowercased message selects: the groups practice/scenario/exercise,
  research/latest/trends, path/roadmap/plan, newsletter/article/content are tried in this
  order, the first group with a keyword occurring in the message decides, and
  \<open>CONVERSATION_COACH\<close> is the fallback. A named \<open>preferredAgent\<close> is used instead of
  the scan. The selected type is the one of the row handed to the insert; when the
  database accepts the row, it is the one the session row carries, and the outcome of
  the request is what \<open>processChat\<close> of the agent registered for it returns or throws
  (the error \<open><type> Agent not available\<close> when none is registered); when the database
  rejects the row, the request ends with that error.
\<close>

theorem chat_agent_selection:
  "(let chosen = (case d_preferredAgent data of
                    Some preferred \<Rightarrow> preferred
                  | None \<Rightarrow> scan_keywords routing_table (toLowerCase (d_message data)));
        out = processChatRequest agents e userId data w
    in determineOptimalAgent data = scan_keywords routing_table (toLowerCase (d_message data))
       \<and> (\<exists>created.
             s_agentType created = chosen \<and> s_status created = ACTIVE
             \<and> (case e_insert e created of
                   Some message \<Rightarrow> out = (Inl message, w)
                 | None \<Rightarrow>
                     s_agentType (last (agent_sessions (snd out))) = chosen
                     \<and> fst out =
                         (case agents chosen of
                            None \<Rightarrow> Inl (agentTypeName chosen @ '' Agent not available'')
                          | Some a \<Rightarrow>
                              processChat a
                                (JObj ([(''message'', JStr (d_message data))]
                                       @ opt_str ''topicId'' (d_topicId data)
                                       @ opt_field ''context'' (d_context data)
                                       @ [(''userId'', JStr userId),
                                          (''sessionId'', JStr (e_sessionId e))])))
                     \<and> (\<exists>u. trace (snd out) =
                              trace w @ [SessionCreated created]
                                @ (case agents chosen of
                                     None \<Rightarrow> []
                                   | Some a \<Rightarrow> [HandlerInvoked chosen ''processChat''])
                                @ [SessionUpdated (next_id w) u]))))"
  unfolding Let_def
  using chat_selection [where data = data and e = e and agents = agents and userId = userId
          and w = w]
  by (simp only: determineOptimalAgent_scan simp_thms)

text \<open>
  Claim C4. A request whose type tag is none of the five known tags fails with the
  message \<open>Unknown request type: <tag>\<close>; the state is returned as it was, so no
  session row was created and no agent method was called, whatever is registered.
\<close>

theorem unknown_request_type:
  assumes "r_type request \<notin> {''NEWSLETTER_PROCESSING'', ''LEARNING_PATH_GENERATION'',
                              ''PRACTICE_SCENARIO'', ''RESEARCH_QUERY'', ''CHAT''}"
  shows "processLearningRequest agents e userId request w =
           (Inl (''Unknown request type: '' @ r_type request), w)"
  using assms by (simp add: processLearningRequest_def)

text \<open>The tag \<open>DELETE\<close> is such a tag.\<close>

theorem unknown_request_type_witness:
  "''DELETE'' \<notin> {''NEWSLETTER_PROCESSING'', ''LEARNING_PATH_GENERATION'',
                   ''PRACTICE_SCENARIO'', ''RESEARCH_QUERY'', ''CHAT''}
   \<and> processLearningRequest Map.empty env0 ''u1'' \<lparr> r_type = ''DELETE'', r_data = no_data \<rparr> world0 =
       (Inl ''Unknown request type: DELETE'', world0)"
  using unknown_request_type [of "\<lparr> r_type = ''DELETE'', r_data = no_data \<rparr>" Map.empty env0 "''u1''" world0]
  by simp













section \<open>Properties of authentication\<close>

lemma split_on_no_sep: "sep \<notin> set t \<Longrightarrow> split_on sep t = [t]"
  by (induction t) auto

lemma bearer_header_token:
  "CHR '' '' \<notin> set t \<Longrightarrow> header_token (Some (''Bearer '' @ t)) = Some t"
  by (simp add: header_token_def at_index_def split_on_no_sep)

text \<open>
  Claim C6. On a route guarded by \<open>authenticateToken\<close>: when the Authorization header is
  missing, or its second space-separated part (the bearer token) is missing or empty, the
  answer is 401 with \<open>{success: false, error: ...}\<close>; when a token is present and its
  verification against the configured secret fails, the answer is 403 with the same
  shape; the middleware hands over to the handler only with the payload of a successful
  verification, and otherwise the answer is the middleware's (401, 403, or 500 when no
  secret is configured) and the handler does not run.
\<close>

theorem authenticateToken_responses:
  "header_token None = None
   \<and> (\<forall>t. CHR '' '' \<notin> set t \<longrightarrow> header_token (Some (''Bearer '' @ t)) = Some t)
   \<and> (header_token authHeader = None \<or> header_token authHeader = Some [] \<longrightarrow>
        authenticateToken L penv now authHeader =
          Responded (json_error 401 ''Access token is required'')
        \<and> guarded L penv now authHeader handler w =
            (json_error 401 ''Access token is required'', w))
   \<and> (\<forall>token secret.
         header_token authHeader = Some token \<and> token \<noteq> []
         \<and> JWT_SECRET penv = Some secret \<and> secret \<noteq> []
         \<and> jwt_verify L token secret now = None \<longrightarrow>
           authenticateToken L penv now authHeader =
             Responded (json_error 403 ''Invalid or expired token'')
           \<and> guarded L penv now authHeader handler w =
               (json_error 403 ''Invalid or expired token'', w))
   \<and> (\<forall>user. authenticateToken L penv now authHeader = Next user \<longrightarrow>
         (\<exists>token secret. header_token authHeader = Some token \<and> token \<noteq> []
            \<and> JWT_SECRET penv = Some secret \<and> secret \<noteq> []
            \<and> jwt_verify L token secret now = Some user))
   \<and> (\<forall>response. authenticateToken L penv now authHeader = Responded response \<longrightarrow>
         guarded L penv now authHeader handler w = (response, w)
         \<and> res_status response \<in> {401, 403, 500})"
proof (intro conjI)
  show "header_token None = None"
    by (simp add: header_token_def)
  show "\<forall>t. CHR '' '' \<notin> set t \<longrightarrow> header_token (Some (''Bearer '' @ t)) = Some t"
    using bearer_header_token by blast
  show "header_token authHeader = None \<or> header_token authHeader = Some [] \<longrightarrow>
        authenticateToken L penv now authHeader =
          Responded (json_error 401 ''Access token is required'')
        \<and> guarded L penv now authHeader handler w =
            (json_error 401 ''Access token is required'', w)"
    by (auto simp: authenticateToken_def guarded_def)
  show "\<forall>token secret.
         header_token authHeader = Some token \<and> token \<noteq> []
         \<and> JWT_SECRET penv = Some secret \<and> secret \<noteq> []
         \<and> jwt_verify L token secret now = None \<longrightarrow>
           authenticateToken L penv now authHeader =
             Responded (json_error 403 ''Invalid or expired token'')
           \<and> guarded L penv now authHeader handler w =
               (json_error 403 ''Invalid or expired token'', w)"
    by (auto simp: authenticateToken_def guarded_def)
  show "\<forall>user. authenticateToken L penv now authHeader = Next user \<longrightarrow>
         (\<exists>token secret. header_token authHeader = Some token \<and> token \<noteq> []
            \<and> JWT_SECRET penv = Some secret \<and> secret \<noteq> []
            \<and> jwt_verify L token secret now = Some user)"
    by (auto simp: authenticateToken_def split: option.splits if_splits)
  show "\<forall>response. authenticateToken L penv now authHeader = Responded response \<longrightarrow>
         guarded L penv now authHeader handler w = (response, w)
         \<and> res_status response \<in> {401, 403, 500}"
    by (auto simp: authenticateToken_def guarded_def json_error_def split: option.splits if_splits)
qed

text \<open>No header gives 401; a token the library rejects gives 403 and leaves the state.\<close>

theorem authenticateToken_responses_witness:
  "authenticateToken demo_libs penv0 0 None = Responded (json_error 401 ''Access token is required'')
   \<and> authenticateToken demo_libs penv0 0 (Some ''Bearer forged'') =
       Responded (json_error 403 ''Invalid or expired token'')
   \<and> guarded demo_libs penv0 0 (Some ''Bearer forged'') (\<lambda>user w. (json_ok JNull, Suc w)) 0 =
       (json_error 403 ''Invalid or expired token'', 0)"
proof -
  have a: "authenticateToken demo_libs penv0 0 None = Responded (json_error 401 ''Access token is required'')"
    using authenticateToken_responses
            [where authHeader = None and L = demo_libs and penv = penv0 and now = 0
               and handler = "\<lambda>user w. (json_ok JNull, Suc w)" and w = 0]
    by (simp add: header_token_def)
  have t: "header_token (Some ''Bearer forged'') = Some ''forged''"
    using bearer_header_token [of "''forged''"] by simp
  have v: "JWT_SECRET penv0 = Some ''s3cret''" "jwt_verify demo_libs ''forged'' ''s3cret'' 0 = None"
    by (simp_all add: penv0_def demo_libs_def)
  have b: "authenticateToken demo_libs penv0 0 (Some ''Bearer forged'') =
             Responded (json_error 403 ''Invalid or expired token'')
           \<and> guarded demo_libs penv0 0 (Some ''Bearer forged'') (\<lambda>user w. (json_ok JNull, Suc w)) 0 =
               (json_error 403 ''Invalid or expired token'', 0)"
    using authenticateToken_responses
            [where authHeader = "Some ''Bearer forged''" and L = demo_libs and penv = penv0
               and now = 0 and handler = "\<lambda>user w. (json_ok JNull, Suc w)" and w = "0::nat"] t v
    by blast
  from a b show ?thesis by simp
qed






lemma same_but_passwordD:
  "same_but_password u u' \<Longrightarrow> \<exists>h. u' = u\<lparr> u_password := h \<rparr>"
  unfolding same_but_password_def by (rule exI [of _ "u_password u'"])

lemma same_but_password_fields:
  "same_but_password u u' \<Longrightarrow>
     sanitizeUser u' = sanitizeUser u \<and> u_id u' = u_id u \<and> u_email u' = u_email u
     \<and> u_role u' = u_role u"
  by (auto dest!: same_but_passwordD simp: sanitizeUser_def)

lemma find_related:
  "list_all2 R xs ys \<Longrightarrow> (\<And>x y. R x y \<Longrightarrow> P x = Q y) \<Longrightarrow>
   rel_option R (find P xs) (find Q ys)"
  by (induction rule: list_all2_induct) auto

lemma findByPk_related:
  "list_all2 same_but_password users users' \<Longrightarrow>
   rel_option same_but_password (findByPk users userId) (findByPk users' userId)"
  unfolding findByPk_def
  by (rule find_related) (auto dest: same_but_password_fields)

lemma findOne_email_related:
  "list_all2 same_but_password users users' \<Longrightarrow>
   rel_option same_but_password (findOne_email users email) (findOne_email users' email)"
  unfolding findOne_email_def
  by (rule find_related) (auto dest: same_but_password_fields)

lemma sanitize_lastActive:
  "same_but_password u u' \<Longrightarrow>
   sanitizeUser (u'\<lparr> u_lastActive := t \<rparr>) = sanitizeUser (u\<lparr> u_lastActive := t \<rparr>)"
  by (auto dest!: same_but_passwordD simp: sanitizeUser_def)

lemma sanitize_updates:
  "same_but_password u u' \<Longrightarrow>
   sanitizeUser (apply_profile_updates updates u') = sanitizeUser (apply_profile_updates updates u)"
  by (auto dest!: same_but_passwordD simp: sanitizeUser_def apply_profile_updates_def
           split: option.splits)

lemma getUserById_related:
  assumes "list_all2 same_but_password users users'"
  shows "getUserById users' userId = getUserById users userId"
  using findByPk_related [OF assms, of userId]
  by (auto simp: getUserById_def option.rel_sel dest: same_but_password_fields
           split: option.splits)

lemma updateUser_related:
  assumes "list_all2 same_but_password users users'"
  shows "fst (updateUser userId updates users') = fst (updateUser userId updates users)"
  using findByPk_related [OF assms, of userId]
  by (auto simp: updateUser_def Let_def option.rel_sel dest: sanitize_updates
           split: option.splits)

lemma login_related:
  assumes "list_all2 same_but_password users users'"
    and "fst (login L penv now email password users) = Inr (profile, token)"
    and "fst (login L penv now email password users') = Inr (profile', token')"
  shows "profile' = profile \<and> token' = token"
proof -
  from assms(2) obtain u where u: "findOne_email users email = Some u"
    by (auto simp: login_def split: option.splits)
  from assms(3) obtain u' where u': "findOne_email users' email = Some u'"
    by (auto simp: login_def split: option.splits)
  from findOne_email_related [OF assms(1), of email] u u'
  have r: "same_but_password u u'" by simp
  from assms(2) u have 1: "profile = sanitizeUser (u\<lparr> u_lastActive := now \<rparr>)"
    "token = generateToken L penv now (u\<lparr> u_lastActive := now \<rparr>)"
    by (auto simp: login_def Let_def split: if_splits)
  from assms(3) u' have 2: "profile' = sanitizeUser (u'\<lparr> u_lastActive := now \<rparr>)"
    "token' = generateToken L penv now (u'\<lparr> u_lastActive := now \<rparr>)"
    by (auto simp: login_def Let_def split: if_splits)
  from r have "u_id u' = u_id u" "u_email u' = u_email u" "u_role u' = u_role u"
    by (auto dest: same_but_password_fields)
  with 1 2 sanitize_lastActive [OF r] show ?thesis
    by (simp add: generateToken_def)
qed

lemma register_related:
  assumes "list_all2 same_but_password users users'"
    and "fst (register (L\<lparr> bcrypt_hash := h \<rparr>) penv newId now userData users) = Inr (profile, token)"
    and "fst (register (L\<lparr> bcrypt_hash := h' \<rparr>) penv newId now userData users') = Inr (profile', token')"
  shows "profile' = profile \<and> token' = token"
  using assms(2,3)
  by (auto simp: register_def Let_def sanitizeUser_def generateToken_def
           split: option.splits)

text \<open>
  Claim C10. What \<open>register\<close>, \<open>login\<close>, \<open>getUserById\<close> and
  \<open>updateUser\<close> return is \<open>sanitizeUser\<close> of a stored row, a profile without a
  password field, and it does not depend on the stored hashes: \<open>sanitizeUser\<close> ignores
  the hash, and over two tables whose rows differ at most in their hashes
  \<open>getUserById\<close> and \<open>updateUser\<close> return the same, two successful logins return
  the same profile and token, and so do two successful registrations under different
  hash functions.
\<close>

theorem password_never_returned:
  assumes "list_all2 same_but_password users users'"
  shows "sanitizeUser (user\<lparr> u_password := hash \<rparr>) = sanitizeUser user
         \<and> getUserById users userId = map_option sanitizeUser (findByPk users userId)
         \<and> getUserById users' userId = getUserById users userId
         \<and> fst (updateUser userId updates users') = fst (updateUser userId updates users)
         \<and> (\<forall>profile. fst (updateUser userId updates users) = Inr profile \<longrightarrow>
               (\<exists>u. u \<in> set (snd (updateUser userId updates users)) \<and> profile = sanitizeUser u))
         \<and> (\<forall>profile token profile' token'.
               fst (login L penv now email password users) = Inr (profile, token)
               \<and> fst (login L penv now email password users') = Inr (profile', token') \<longrightarrow>
                 profile' = profile \<and> token' = token
                 \<and> (\<exists>u. u \<in> set (snd (login L penv now email password users))
                        \<and> profile = sanitizeUser u))
         \<and> (\<forall>profile token profile' token'.
               fst (register (L\<lparr> bcrypt_hash := h \<rparr>) penv newId now userData users) =
                 Inr (profile, token)
               \<and> fst (register (L\<lparr> bcrypt_hash := h' \<rparr>) penv newId now userData users') =
                   Inr (profile', token') \<longrightarrow>
                 profile' = profile \<and> token' = token
                 \<and> (\<exists>u. u \<in> set (snd (register (L\<lparr> bcrypt_hash := h \<rparr>) penv newId now userData users))
                        \<and> profile = sanitizeUser u))"
proof (intro conjI allI impI; (elim conjE)?)
  show "sanitizeUser (user\<lparr> u_password := hash \<rparr>) = sanitizeUser user"
    by (simp add: sanitizeUser_def)
  show "getUserById users userId = map_option sanitizeUser (findByPk users userId)"
    by (simp add: getUserById_def split: option.splits)
  show "getUserById users' userId = getUserById users userId"
    using assms by (rule getUserById_related)
  show "fst (updateUser userId updates users') = fst (updateUser userId updates users)"
    using assms by (rule updateUser_related)
next
  fix profile
  assume a: "fst (updateUser userId updates users) = Inr profile"
  then obtain u where u: "findByPk users userId = Some u"
    by (auto simp: updateUser_def split: option.splits)
  then have m: "u \<in> set users"
    by (auto simp: findByPk_def find_Some_iff)
  from a u have p: "profile = sanitizeUser (apply_profile_updates updates u)"
    and t: "snd (updateUser userId updates users) = save_user (apply_profile_updates updates u) users"
    by (auto simp: updateUser_def Let_def)
  have "apply_profile_updates updates u \<in> set (save_user (apply_profile_updates updates u) users)"
    unfolding save_user_def set_map
    by (rule image_eqI [where x = u]) (simp_all add: m apply_profile_updates_def)
  with p t show "\<exists>u. u \<in> set (snd (updateUser userId updates users)) \<and> profile = sanitizeUser u"
    by auto
next
  fix profile token profile' token'
  assume a: "fst (login L penv now email password users) = Inr (profile, token)"
    and b: "fst (login L penv now email password users') = Inr (profile', token')"
  from login_related [OF assms a b] show "profile' = profile" "token' = token"
    by simp_all
  from a obtain u where u: "findOne_email users email = Some u"
    by (auto simp: login_def split: option.splits)
  then have m: "u \<in> set users"
    by (auto simp: findOne_email_def find_Some_iff)
  from a u have p: "profile = sanitizeUser (u\<lparr> u_lastActive := now \<rparr>)"
    and t: "snd (login L penv now email password users) = save_user (u\<lparr> u_lastActive := now \<rparr>) users"
    by (auto simp: login_def Let_def split: if_splits)
  have "u\<lparr> u_lastActive := now \<rparr> \<in> set (save_user (u\<lparr> u_lastActive := now \<rparr>) users)"
    unfolding save_user_def set_map
    by (rule image_eqI [where x = u]) (simp_all add: m)
  with p t show "\<exists>u. u \<in> set (snd (login L penv now email password users)) \<and> profile = sanitizeUser u"
    by auto
next
  fix profile token profile' token'
  assume a: "fst (register (L\<lparr> bcrypt_hash := h \<rparr>) penv newId now userData users) =
                 Inr (profile, token)"
    and b: "fst (register (L\<lparr> bcrypt_hash := h' \<rparr>) penv newId now userData users') =
                   Inr (profile', token')"
  from register_related [OF assms a b] show "profile' = profile" "token' = token"
    by simp_all
  from a show "\<exists>u. u \<in> set (snd (register (L\<lparr> bcrypt_hash := h \<rparr>) penv newId now userData users))
                        \<and> profile = sanitizeUser u"
    by (auto simp: register_def Let_def split: option.splits)
qed

text \<open>Ann's row with another hash gives the same profile.\<close>

theorem password_never_returned_witness:
  "list_all2 same_but_password users0 [ann\<lparr> u_password := ''bcrypt:other'' \<rparr>]
   \<and> getUserById [ann\<lparr> u_password := ''bcrypt:other'' \<rparr>] ''u1'' = getUserById users0 ''u1''
   \<and> getUserById users0 ''u1'' = Some (sanitizeUser ann)"
proof -
  have h: "list_all2 same_but_password users0 [ann\<lparr> u_password := ''bcrypt:other'' \<rparr>]"
    by (simp add: users0_def same_but_password_def)
  have "getUserById users0 ''u1'' = Some (sanitizeUser ann)"
    by (simp add: getUserById_def findByPk_def users0_def ann_def)
  with password_never_returned [OF h, where userId = "''u1''", THEN conjunct2, THEN conjunct2,
         THEN conjunct1] h
  show ?thesis
    by simp
qed

section \<open>Properties of the analytics\<close>

lemma foldl_plus_sum_list:
  "foldl (\<lambda>sum x. sum + g x) (a::int) xs = a + sum_list (map g xs)"
  by (induction xs arbitrary: a) auto

lemma sum_list_insort_key:
  "sum_list (map g (insort_key f x xs)) = (g x :: int) + sum_list (map g xs)"
  by (induction xs) auto

lemma sum_list_sort_key:
  "sum_list (map g (sort_key f xs)) = (sum_list (map g xs) :: int)"
  by (induction xs) (auto simp: sum_list_insort_key)

lemma filter_latest_first:
  "filter P (rev (sort_key f xs)) = rev (sort_key f (filter P xs))"
  by (simp add: rev_filter [symmetric] filter_sort)

lemma sum_list_latest_first:
  "sum_list (map g (rev (sort_key f xs))) = (sum_list (map g xs) :: int)"
  by (simp add: rev_map [symmetric] sum_list_sort_key)

lemma gain_filter_positive:
  "(truthy b \<and> truthy a \<and> num a > num b) = (\<exists>x y. b = Some x \<and> a = Some y \<and> x \<noteq> 0 \<and> y \<noteq> 0 \<and> x < y)"
  by (auto simp: truthy_def num_def split: option.splits)

lemma completed_since:
  "(case c of None \<Rightarrow> False | Some t \<Rightarrow> (a::int) \<le> t) = (\<exists>t. c = Some t \<and> a \<le> t)"
  by (cases c) auto

lemma setDate_back28_fixed_offset:
  "ae_LocalTZA ae (LocalTime ae tv - 28 * msPerDay) False = ae_LocalTZA ae tv True \<Longrightarrow>
   setDate_back28 ae tv = tv - 28 * msPerDay"
  by (simp add: setDate_back28_def UTC_def LocalTime_def)

lemma velocity_window:
  assumes "ae_rejects ae CountCompletions = None"
    and "setDate_back28 ae (ae_now ae) = ae_now ae - 28 * msPerDay"
    and "\<forall>p\<in>set table. \<forall>t. pr_completedAt p = Some t \<longrightarrow> t \<le> ae_now ae"
  shows "calculateLearningVelocity ae table userId = spec_learningVelocity table (ae_now ae) userId"
proof -
  have "filter (\<lambda>p. pr_userId p = userId \<and> pr_status p = ''COMPLETED''
                    \<and> (case pr_completedAt p of None \<Rightarrow> False
                        | Some t \<Rightarrow> ae_now ae - 28 * msPerDay \<le> t)) table =
        filter (\<lambda>p. pr_userId p = userId \<and> pr_status p = ''COMPLETED''
                    \<and> (case pr_completedAt p of None \<Rightarrow> False
                        | Some t \<Rightarrow> ae_now ae - 28 * msPerDay \<le> t \<and> t \<le> ae_now ae)) table"
    using assms(3) by (intro filter_cong refl) (auto split: option.splits)
  then show ?thesis
    using assms(1,2) by (simp add: calculateLearningVelocity_def spec_learningVelocity_def Let_def)
qed

text \<open>
  Claim C8, amended. For an existing user and a database that answers the row queries
  and the activity count, \<open>calculateUserAnalytics\<close> returns, over the stored rows of
  that user: \<open>totalTopicsCompleted\<close>, the number of progress rows with status
  \<open>COMPLETED\<close>; \<open>totalTimeSpentMinutes\<close>, the sum of \<open>timeSpentMinutes\<close> over all
  progress rows; \<open>learningVelocity\<close>, 0 when the count query of the velocity is
  refused, and otherwise the number of \<open>COMPLETED\<close> rows whose \<open>completedAt\<close> is not
  earlier than the same local time of day 28 calendar days before now, divided by 4;
  and \<open>averageConfidenceGain\<close>, the arithmetic mean of after minus before over the
  learning sessions that record both confidence values, both non-zero, with after
  strictly greater than before, and 0 when there is no such session. That instant is
  28 days of 24 hours before now when local time has the same offset from UTC at both
  instants, and the velocity is then the number of completions in the preceding 28 days
  divided by 4, provided the count query is answered and no row is dated after now.
\<close>

theorem user_analytics_aggregates:
  assumes "findByPk (a_users db) userId = Some user"
    and "ae_rejects ae FindUser = None"
    and "ae_rejects ae FindRows = None"
    and "ae_rejects ae CountActivity = None"
  shows "\<exists>result.
           calculateUserAnalytics ae db userId = Inr result
           \<and> la_totalTopicsCompleted result =
               length (filter (\<lambda>p. pr_userId p = userId \<and> pr_status p = ''COMPLETED'') (a_progress db))
           \<and> la_totalTimeSpentMinutes result =
               sum_list (map pr_timeSpentMinutes (filter (\<lambda>p. pr_userId p = userId) (a_progress db)))
           \<and> la_learningVelocity result =
               (case ae_rejects ae CountCompletions of
                  Some message \<Rightarrow> 0
                | None \<Rightarrow>
                    of_nat (length (filter (\<lambda>p. pr_userId p = userId \<and> pr_status p = ''COMPLETED''
                                              \<and> (\<exists>t. pr_completedAt p = Some t
                                                     \<and> setDate_back28 ae (ae_now ae) \<le> t))
                                      (a_progress db))) / 4)
           \<and> (ae_LocalTZA ae (LocalTime ae (ae_now ae) - 28 * msPerDay) False =
                 ae_LocalTZA ae (ae_now ae) True \<longrightarrow>
                setDate_back28 ae (ae_now ae) = ae_now ae - 28 * msPerDay
                \<and> (ae_rejects ae CountCompletions = None
                    \<and> (\<forall>p\<in>set (a_progress db). \<forall>t. pr_completedAt p = Some t \<longrightarrow> t \<le> ae_now ae) \<longrightarrow>
                      la_learningVelocity result =
                        spec_learningVelocity (a_progress db) (ae_now ae) userId))
           \<and> la_averageConfidenceGain result =
               (let gains = map (\<lambda>s. num (ls_confidenceAfter s) - num (ls_confidenceBefore s))
                              (filter (\<lambda>s. ls_userId s = userId
                                          \<and> (\<exists>before after.
                                                ls_confidenceBefore s = Some before
                                                \<and> ls_confidenceAfter s = Some after
                                                \<and> before \<noteq> 0 \<and> after \<noteq> 0 \<and> before < after))
                                 (a_sessions db))
                in if gains = [] then 0 else mean gains)"
proof -
  let ?P = "\<lambda>s. truthy (ls_confidenceBefore s) \<and> truthy (ls_confidenceAfter s)
                \<and> num (ls_confidenceAfter s) > num (ls_confidenceBefore s)"
  let ?g = "\<lambda>s. num (ls_confidenceAfter s) - num (ls_confidenceBefore s)"
  let ?mine = "filter (\<lambda>s. ls_userId s = userId) (a_sessions db)"
  let ?result = "\<lparr> la_userId = userId,
                la_totalTopicsCompleted =
                  length (filter (\<lambda>p. pr_status p = ''COMPLETED'') (findAll_progress (a_progress db) userId)),
                la_totalTimeSpentMinutes =
                  foldl (\<lambda>sum p. sum + pr_timeSpentMinutes p) 0 (findAll_progress (a_progress db) userId),
                la_learningVelocity = calculateLearningVelocity ae (a_progress db) userId,
                la_averageConfidenceGain =
                  calculateAverageConfidenceGain (findAll_sessions (a_sessions db) userId) \<rparr>"
  have c: "length (filter (\<lambda>p. pr_status p = ''COMPLETED'') (findAll_progress (a_progress db) userId)) =
           length (filter (\<lambda>p. pr_userId p = userId \<and> pr_status p = ''COMPLETED'') (a_progress db))"
    by (simp add: findAll_progress_def conj_commute)
  have t: "foldl (\<lambda>sum p. sum + pr_timeSpentMinutes p) 0 (findAll_progress (a_progress db) userId) =
           sum_list (map pr_timeSpentMinutes (filter (\<lambda>p. pr_userId p = userId) (a_progress db)))"
    by (simp add: foldl_plus_sum_list findAll_progress_def)
  have v: "calculateLearningVelocity ae (a_progress db) userId =
           (case ae_rejects ae CountCompletions of
              Some message \<Rightarrow> 0
            | None \<Rightarrow>
                of_nat (length (filter (\<lambda>p. pr_userId p = userId \<and> pr_status p = ''COMPLETED''
                                          \<and> (\<exists>t. pr_completedAt p = Some t
                                                 \<and> setDate_back28 ae (ae_now ae) \<le> t))
                                  (a_progress db))) / 4)"
    by (simp add: calculateLearningVelocity_def Let_def completed_since split: option.splits)
  have w: "ae_LocalTZA ae (LocalTime ae (ae_now ae) - 28 * msPerDay) False =
             ae_LocalTZA ae (ae_now ae) True \<longrightarrow>
           setDate_back28 ae (ae_now ae) = ae_now ae - 28 * msPerDay
           \<and> (ae_rejects ae CountCompletions = None
               \<and> (\<forall>p\<in>set (a_progress db). \<forall>t. pr_completedAt p = Some t \<longrightarrow> t \<le> ae_now ae) \<longrightarrow>
                 calculateLearningVelocity ae (a_progress db) userId =
                   spec_learningVelocity (a_progress db) (ae_now ae) userId)"
    using setDate_back28_fixed_offset [of ae "ae_now ae"] velocity_window [of ae "a_progress db" userId]
    by blast
  have f: "filter ?P (findAll_sessions (a_sessions db) userId) =
           rev (sort_key ls_startTime (filter ?P ?mine))"
    unfolding findAll_sessions_def by (rule filter_latest_first)
  have q: "filter ?P ?mine =
           filter (\<lambda>s. ls_userId s = userId
                        \<and> (\<exists>before after.
                              ls_confidenceBefore s = Some before
                              \<and> ls_confidenceAfter s = Some after
                              \<and> before \<noteq> 0 \<and> after \<noteq> 0 \<and> before < after)) (a_sessions db)"
    by (simp add: gain_filter_positive conj_commute)
  have g: "calculateAverageConfidenceGain (findAll_sessions (a_sessions db) userId) =
           (let gains = map ?g (filter ?P ?mine) in if gains = [] then 0 else mean gains)"
    unfolding calculateAverageConfidenceGain_def Let_def f
    by (simp add: foldl_plus_sum_list sum_list_latest_first mean_def)
  have g': "calculateAverageConfidenceGain (findAll_sessions (a_sessions db) userId) =
           (let gains = map ?g (filter (\<lambda>s. ls_userId s = userId
                        \<and> (\<exists>before after.
                              ls_confidenceBefore s = Some before
                              \<and> ls_confidenceAfter s = Some after
                              \<and> before \<noteq> 0 \<and> after \<noteq> 0 \<and> before < after)) (a_sessions db))
            in if gains = [] then 0 else mean gains)"
    unfolding g q by (rule refl)
  have r: "calculateUserAnalytics ae db userId = Inr ?result"
    using assms by (simp add: calculateUserAnalytics_def Let_def)
  have s: "la_totalTopicsCompleted ?result =
             length (filter (\<lambda>p. pr_status p = ''COMPLETED'') (findAll_progress (a_progress db) userId))"
    "la_totalTimeSpentMinutes ?result =
       foldl (\<lambda>sum p. sum + pr_timeSpentMinutes p) 0 (findAll_progress (a_progress db) userId)"
    "la_learningVelocity ?result = calculateLearningVelocity ae (a_progress db) userId"
    "la_averageConfidenceGain ?result =
       calculateAverageConfidenceGain (findAll_sessions (a_sessions db) userId)"
    by simp_all
  show ?thesis
  proof (intro exI conjI)
    show "calculateUserAnalytics ae db userId = Inr ?result"
      by (rule r)
  qed (unfold s, (rule c t v w g')+)
qed

text \<open>
  Ann's rows on a server in UTC: one completion, 42 minutes, one completion in the
  preceding 28 days, and one session with a gain.
\<close>

theorem user_analytics_aggregates_witness:
  "findByPk (a_users db0) ''u1'' = Some ann
   \<and> ae_rejects ae_utc FindUser = None \<and> ae_rejects ae_utc FindRows = None
   \<and> ae_rejects ae_utc CountActivity = None
   \<and> (\<exists>result. calculateUserAnalytics ae_utc db0 ''u1'' = Inr result
         \<and> la_totalTopicsCompleted result = 1 \<and> la_totalTimeSpentMinutes result = 42
         \<and> la_learningVelocity result = 1 / 4
         \<and> la_learningVelocity result = spec_learningVelocity (a_progress db0) 1712750400000 ''u1''
         \<and> la_averageConfidenceGain result = 2)"
proof -
  have h: "findByPk (a_users db0) ''u1'' = Some ann"
    by (simp add: findByPk_def db0_def ann_def)
  have q: "ae_rejects ae_utc FindUser = None" "ae_rejects ae_utc FindRows = None"
    "ae_rejects ae_utc CountActivity = None"
    by (simp_all add: ae_utc_def)
  from user_analytics_aggregates [OF h q]
  show ?thesis
    using h q
    by (simp add: db0_def ae_utc_def setDate_back28_def UTC_def LocalTime_def msPerDay_def
          mean_def num_def Let_def)
qed

text \<open>
  Claim C8 as stated takes the mean over all sessions that record both values, and the
  velocity from the completions of the preceding 28 days. Ann has two such sessions,
  from 5 to 7 and from 6 to 4: that mean is 0, the code returns 2. Her one completion
  is 27 days and 23 and a half hours old, a velocity of 1/4: the code returns 0 when
  the count query is refused, and 0 on a server in Central European time, where the
  same time of day 28 calendar days ago is an hour later than 28 times 24 hours ago.
  With a further completion dated three weeks ahead the code returns 1/2.
\<close>

theorem analytics_counterexample:
  "map_sum id la_averageConfidenceGain (calculateUserAnalytics ae_utc db0 ''u1'') = Inr 2
   \<and> spec_averageConfidenceGain (a_sessions db0) ''u1'' = 0
   \<and> spec_learningVelocity (a_progress db0) 1712750400000 ''u1'' = 1 / 4
   \<and> ae_now ae_count_refused = 1712750400000
   \<and> map_sum id la_learningVelocity (calculateUserAnalytics ae_count_refused db0 ''u1'') = Inr 0
   \<and> ae_now ae_berlin = 1712750400000
   \<and> map_sum id la_learningVelocity (calculateUserAnalytics ae_berlin db0 ''u1'') = Inr 0
   \<and> spec_learningVelocity (a_progress db_postdated) 1712750400000 ''u1'' = 1 / 4
   \<and> ae_now ae_utc = 1712750400000
   \<and> map_sum id la_learningVelocity (calculateUserAnalytics ae_utc db_postdated ''u1'') = Inr (1 / 2)"
  by (simp add: calculateUserAnalytics_def db0_def db_postdated_def ann_def findByPk_def
        findAll_progress_def findAll_sessions_def calculateLearningVelocity_def
        calculateAverageConfidenceGain_def spec_averageConfidenceGain_def
        spec_learningVelocity_def ae_utc_def ae_count_refused_def ae_berlin_def
        setDate_back28_def UTC_def LocalTime_def msPerDay_def
        mean_def truthy_def num_def Let_def)

section \<open>Properties of the completion wrapper\<close>






end
